theory Spec2Isabelle
  imports Main
begin

section \<open>The declaration language of \<open>types/newrelic/index.d.ts\<close>\<close>

text \<open>
  The file is a flat list of ambient declarations: exported functions (some overloaded,
  some generic), exported constants, interfaces and one type alias. No declaration has a
  body, so the program is its declarations; they are embedded as data, constructor by
  constructor in the order and spelling of the source, and the properties below are
  computed from that list by the look-up functions of the next section.

  A parameter is required (\<open>x: T\<close>), optional (\<open>x?: T\<close>) or a rest parameter
  (\<open>...x: T\<close>).
\<close>

datatype param_kind = PRequired | POptional | PRest

text \<open>
  Types as they are written. \<open>TRef n args\<close> is a name used as a type, with its type
  arguments: an interface or alias of the file (\<open>Metric\<close>), a global (\<open>Error\<close>,
  \<open>RegExp\<close>, \<open>Promise<T>\<close>, \<open>Record<K, V>\<close>) or a type parameter in scope (\<open>T\<close>).
  \<open>TObject\<close> is an object literal type; the members of an interface have the same form.
  A property member carries its name, whether it is optional (\<open>name?:\<close>) and its type; an
  index signature \<open>[key: K]: V\<close> carries the key's name, the key type and the value type.
\<close>

datatype ts_type =
    TString
  | TNumber
  | TBoolean
  | TVoid
  | TUndefined
  | TAny
  | TLitString string
  | TLitBool bool
  | TRef string "ts_type list"
  | TArray ts_type
  | TUnion "ts_type list"
  | TObject "member list"
  | TFun "param list" ts_type
and param = Param string param_kind ts_type
and member =
    MProp string bool ts_type
  | MIndex string ts_type ts_type
  | MMethod string "param list" ts_type
  | MCall "param list" ts_type

text \<open>A type parameter \<open>T\<close> or \<open>T extends C\<close>.\<close>

datatype tparam = TParam string "ts_type option"

datatype decl =
    DFunction string "tparam list" "param list" ts_type
  | DConst string ts_type
  | DInterface string "member list"
  | DTypeAlias string ts_type

record signature =
  sig_tparams :: "tparam list"
  sig_params :: "param list"
  sig_ret :: ts_type

section \<open>The declarations\<close>

definition index_d_ts :: "decl list" where
  "index_d_ts = [
    DFunction ''setTransactionName'' [] [Param ''name'' PRequired TString] TVoid,
    DFunction ''getTransaction'' [] [] (TRef ''TransactionHandle'' []),
    DFunction ''setDispatcher'' []
      [Param ''name'' PRequired TString, Param ''version'' POptional TString] TVoid,
    DFunction ''setControllerName'' []
      [Param ''name'' PRequired TString, Param ''action'' PRequired TString] TVoid,
    DFunction ''addCustomAttribute'' []
      [Param ''key'' PRequired TString,
       Param ''value'' PRequired (TUnion [TString, TNumber, TBoolean])] TVoid,
    DFunction ''addCustomAttributes'' []
      [Param ''atts'' PRequired
         (TObject [MIndex ''key'' TString (TUnion [TString, TNumber, TBoolean])])] TVoid,
    DFunction ''addCustomSpanAttribute'' []
      [Param ''key'' PRequired TString,
       Param ''value'' PRequired (TUnion [TString, TNumber, TBoolean])] TVoid,
    DFunction ''addCustomSpanAttributes'' []
      [Param ''atts'' PRequired
         (TObject [MIndex ''key'' TString (TUnion [TString, TNumber, TBoolean])])] TVoid,
    DFunction ''noticeError'' []
      [Param ''error'' PRequired (TRef ''Error'' []),
       Param ''expected'' POptional TBoolean] TVoid,
    DFunction ''noticeError'' []
      [Param ''error'' PRequired (TRef ''Error'' []),
       Param ''customAttributes'' POptional
         (TObject [MIndex ''key'' TString (TUnion [TString, TNumber, TBoolean])]),
       Param ''expected'' POptional TBoolean] TVoid,
    DFunction ''setErrorGroupCallback'' []
      [Param ''callback'' PRequired
         (TFun
            [Param ''metadata'' PRequired
               (TObject [
                  MProp ''customAttributes'' False
                    (TObject [MIndex ''key'' TString (TUnion [TString, TNumber, TBoolean])]),
                  MProp ''request.uri'' False TString,
                  MProp ''http.statusCode'' False TString,
                  MProp ''http.method'' False TString,
                  MProp ''error'' True (TRef ''Error'' []),
                  MProp ''error.expected'' False TBoolean])]
            TString)] TVoid,
    DFunction ''recordLogEvent'' [] [Param ''logEvent'' PRequired (TRef ''LogEvent'' [])] TVoid,
    DFunction ''addNamingRule'' []
      [Param ''pattern'' PRequired (TUnion [TRef ''RegExp'' [], TString]),
       Param ''name'' PRequired TString] TVoid,
    DFunction ''addIgnoringRule'' []
      [Param ''pattern'' PRequired (TUnion [TRef ''RegExp'' [], TString])] TVoid,
    DFunction ''getBrowserTimingHeader'' []
      [Param ''options'' POptional
         (TObject [
            MProp ''nonce'' True TString,
            MProp ''hasToRemoveScriptWrapper'' True TBoolean,
            MProp ''allowTransactionlessInjection'' True TBoolean])] TString,
    DFunction ''startSegment''
      [TParam ''T'' None,
       TParam ''C'' (Some (TFun [Param ''args'' PRest (TArray TAny)] TAny))]
      [Param ''name'' PRequired TString,
       Param ''record'' PRequired TBoolean,
       Param ''handler'' PRequired
         (TFun [Param ''cb'' POptional (TRef ''C'' [])] (TRef ''T'' [])),
       Param ''callback'' POptional (TRef ''C'' [])]
      (TRef ''T'' []),
    DFunction ''createTracer''
      [TParam ''T'' (Some (TFun [Param ''args'' PRest (TArray TAny)] TAny))]
      [Param ''name'' PRequired TString, Param ''handle'' PRequired (TRef ''T'' [])]
      (TRef ''T'' []),
    DFunction ''startWebTransaction'' [TParam ''T'' None]
      [Param ''url'' PRequired TString,
       Param ''handle'' PRequired (TRef ''Promise'' [TRef ''T'' []])]
      (TRef ''Promise'' [TRef ''T'' []]),
    DFunction ''startWebTransaction'' [TParam ''T'' None]
      [Param ''url'' PRequired TString,
       Param ''handle'' PRequired
         (TFun [Param ''args'' PRest (TArray TAny)] (TRef ''T'' []))]
      (TRef ''T'' []),
    DFunction ''startBackgroundTransaction'' [TParam ''T'' None]
      [Param ''name'' PRequired TString,
       Param ''handle'' PRequired (TRef ''Promise'' [TRef ''T'' []])]
      (TRef ''Promise'' [TRef ''T'' []]),
    DFunction ''startBackgroundTransaction'' [TParam ''T'' None]
      [Param ''name'' PRequired TString,
       Param ''handle'' PRequired
         (TFun [Param ''args'' PRest (TArray TAny)] (TRef ''T'' []))]
      (TRef ''T'' []),
    DFunction ''startBackgroundTransaction'' [TParam ''T'' None]
      [Param ''name'' PRequired TString,
       Param ''group'' PRequired TString,
       Param ''handle'' PRequired (TRef ''Promise'' [TRef ''T'' []])]
      (TRef ''Promise'' [TRef ''T'' []]),
    DFunction ''startBackgroundTransaction'' [TParam ''T'' None]
      [Param ''name'' PRequired TString,
       Param ''group'' PRequired TString,
       Param ''handle'' PRequired
         (TFun [Param ''args'' PRest (TArray TAny)] (TRef ''T'' []))]
      (TRef ''T'' []),
    DFunction ''endTransaction'' [] [] TVoid,
    DFunction ''recordMetric'' []
      [Param ''name'' PRequired TString,
       Param ''value'' PRequired (TUnion [TNumber, TRef ''Metric'' []])] TVoid,
    DFunction ''incrementMetric'' []
      [Param ''name'' PRequired TString, Param ''value'' POptional TNumber] TVoid,
    DFunction ''recordCustomEvent'' []
      [Param ''eventType'' PRequired TString,
       Param ''attributes'' PRequired
         (TObject [MIndex ''keys'' TString (TUnion [TBoolean, TNumber, TString])])]
      (TUnion [TUndefined, TLitBool False]),
    DConst ''instrument'' (TRef ''Instrument'' []),
    DConst ''instrumentDatastore'' (TRef ''Instrument'' []),
    DFunction ''instrumentLoadedModule'' []
      [Param ''moduleName'' PRequired TString, Param ''moduleInstance'' PRequired TAny]
      TBoolean,
    DConst ''instrumentWebframework'' (TRef ''Instrument'' []),
    DConst ''instrumentMessages'' (TRef ''Instrument'' []),
    DFunction ''setUserID'' [] [Param ''userID'' PRequired TString] TVoid,
    DFunction ''shutdown'' []
      [Param ''cb'' POptional
         (TFun [Param ''error'' POptional (TRef ''Error'' [])] TVoid)] TVoid,
    DFunction ''shutdown'' []
      [Param ''options'' POptional
         (TObject [
            MProp ''collectPendingData'' True (TUnion [TBoolean, TUndefined]),
            MProp ''timeout'' True (TUnion [TNumber, TUndefined]),
            MProp ''waitForIdle'' True (TUnion [TBoolean, TUndefined])]),
       Param ''cb'' POptional
         (TFun [Param ''error'' POptional (TRef ''Error'' [])] TVoid)] TVoid,
    DFunction ''getLinkingMetadata'' []
      [Param ''omitSupportability'' POptional TBoolean] (TRef ''LinkingMetadata'' []),
    DFunction ''getTraceMetadata'' [] [] (TRef ''TraceMetadata'' []),
    DFunction ''setLambdaHandler''
      [TParam ''T'' (Some (TFun [Param ''args'' PRest (TArray TAny)] TAny))]
      [Param ''handler'' PRequired (TRef ''T'' [])]
      (TRef ''T'' []),
    DFunction ''obfuscateSql'' []
      [Param ''sql'' PRequired TString,
       Param ''dialect'' POptional
         (TUnion [TLitString ''mysql'', TLitString ''postgres'',
                  TLitString ''cassandra'', TLitString ''oracle''])] TString,
    DInterface ''Instrument'' [
      MCall
        [Param ''opts'' PRequired
           (TObject [
              MProp ''moduleName'' False TString,
              MProp ''onRequire'' False (TFun [] TVoid),
              MProp ''onError'' True
                (TUnion [TFun [Param ''err'' PRequired (TRef ''Error'' [])] TVoid,
                         TUndefined])])]
        TVoid,
      MCall
        [Param ''moduleName'' PRequired TString,
         Param ''onRequire'' PRequired (TFun [] TVoid),
         Param ''onError'' POptional
           (TFun [Param ''err'' PRequired (TRef ''Error'' [])] TVoid)]
        TVoid],
    DInterface ''Metric'' [
      MProp ''count'' False TNumber,
      MProp ''total'' False TNumber,
      MProp ''min'' False TNumber,
      MProp ''max'' False TNumber,
      MProp ''sumOfSquares'' False TNumber],
    DInterface ''DistributedTracePayload'' [
      MMethod ''text'' [] TString,
      MMethod ''httpSafe'' [] TString],
    DTypeAlias ''DistributedTraceHeaders''
      (TRef ''Record'' [TString, TUnion [TNumber, TString, TArray TString, TUndefined]]),
    DInterface ''TransactionHandle'' [
      MMethod ''end'' [Param ''callback'' POptional (TFun [] TAny)] TVoid,
      MMethod ''ignore'' [] TVoid,
      MMethod ''insertDistributedTraceHeaders''
        [Param ''headers'' PRequired (TRef ''DistributedTraceHeaders'' [])] TVoid,
      MMethod ''acceptDistributedTraceHeaders''
        [Param ''transportType'' PRequired TString,
         Param ''headers'' PRequired (TRef ''DistributedTraceHeaders'' [])] TVoid,
      MMethod ''isSampled'' [] TBoolean],
    DInterface ''LinkingMetadata'' [
      MProp ''trace.id'' True (TUnion [TString, TUndefined]),
      MProp ''span.id'' True (TUnion [TString, TUndefined]),
      MProp ''entity.name'' False TString,
      MProp ''entity.type'' False TString,
      MProp ''entity.guid'' True (TUnion [TString, TUndefined]),
      MProp ''hostname'' False TString],
    DInterface ''LogEvent'' [
      MProp ''message'' False TString,
      MProp ''level'' True (TUnion [TString, TUndefined]),
      MProp ''timestamp'' True (TUnion [TNumber, TUndefined]),
      MProp ''error'' True (TUnion [TRef ''Error'' [], TUndefined])],
    DInterface ''TraceMetadata'' [
      MProp ''traceId'' True (TUnion [TString, TUndefined]),
      MProp ''spanId'' True (TUnion [TString, TUndefined])],
    DFunction ''withLlmCustomAttributes'' [TParam ''T'' None]
      [Param ''attrs'' PRequired
         (TRef ''Record'' [TString, TUnion [TNumber, TString, TBoolean]]),
       Param ''cb'' PRequired
         (TFun [Param ''args'' PRest (TArray TAny)] (TRef ''T'' []))]
      (TRef ''T'' []),
    DFunction ''setLlmTokenCountCallback'' [TParam ''T'' None]
      [Param ''cb'' PRequired
         (TFun [Param ''args'' PRest (TArray TAny)] (TRef ''T'' []))]
      (TRef ''T'' [])
  ]"

section \<open>Looking declarations up\<close>

text \<open>
  What a caller's type checker does with the file: collect the overloads declared under a
  function name, the members of an interface, the right-hand side of an alias, the type of
  a constant.
\<close>

fun decl_sigs :: "string \<Rightarrow> decl \<Rightarrow> signature list" where
  "decl_sigs f (DFunction n tps ps r) =
     (if n = f then [\<lparr>sig_tparams = tps, sig_params = ps, sig_ret = r\<rparr>] else [])"
| "decl_sigs f (DConst n t) = []"
| "decl_sigs f (DInterface n ms) = []"
| "decl_sigs f (DTypeAlias n t) = []"

definition overloads :: "decl list \<Rightarrow> string \<Rightarrow> signature list" where
  "overloads ds f = concat (map (decl_sigs f) ds)"

fun decl_members :: "string \<Rightarrow> decl \<Rightarrow> member list" where
  "decl_members i (DInterface n ms) = (if n = i then ms else [])"
| "decl_members i (DFunction n tps ps r) = []"
| "decl_members i (DConst n t) = []"
| "decl_members i (DTypeAlias n t) = []"

definition interface_members :: "decl list \<Rightarrow> string \<Rightarrow> member list" where
  "interface_members ds i = concat (map (decl_members i) ds)"

fun decl_alias :: "string \<Rightarrow> decl \<Rightarrow> ts_type list" where
  "decl_alias a (DTypeAlias n t) = (if n = a then [t] else [])"
| "decl_alias a (DFunction n tps ps r) = []"
| "decl_alias a (DConst n t) = []"
| "decl_alias a (DInterface n ms) = []"

definition type_aliases :: "decl list \<Rightarrow> string \<Rightarrow> ts_type list" where
  "type_aliases ds a = concat (map (decl_alias a) ds)"

fun member_names :: "member \<Rightarrow> string list" where
  "member_names (MProp n opt t) = [n]"
| "member_names (MMethod n ps r) = [n]"
| "member_names (MIndex k kt vt) = []"
| "member_names (MCall ps r) = []"

fun is_method :: "member \<Rightarrow> bool" where
  "is_method (MMethod n ps r) = True"
| "is_method (MProp n opt t) = False"
| "is_method (MIndex k kt vt) = False"
| "is_method (MCall ps r) = False"

fun member_methods :: "string \<Rightarrow> member \<Rightarrow> signature list" where
  "member_methods m (MMethod n ps r) =
     (if n = m then [\<lparr>sig_tparams = [], sig_params = ps, sig_ret = r\<rparr>] else [])"
| "member_methods m (MProp n opt t) = []"
| "member_methods m (MIndex k kt vt) = []"
| "member_methods m (MCall ps r) = []"

definition methods_of :: "decl list \<Rightarrow> string \<Rightarrow> string \<Rightarrow> signature list" where
  "methods_of ds i m = concat (map (member_methods m) (interface_members ds i))"

fun member_call :: "member \<Rightarrow> signature list" where
  "member_call (MCall ps r) = [\<lparr>sig_tparams = [], sig_params = ps, sig_ret = r\<rparr>]"
| "member_call (MProp n opt t) = []"
| "member_call (MIndex k kt vt) = []"
| "member_call (MMethod n ps r) = []"

definition call_signatures :: "decl list \<Rightarrow> string \<Rightarrow> signature list" where
  "call_signatures ds i = concat (map member_call (interface_members ds i))"

section \<open>Calls and instantiation\<close>

fun param_kind_of :: "param \<Rightarrow> param_kind" where
  "param_kind_of (Param n k t) = k"

text \<open>
  The number of arguments a signature admits: at least its required parameters, and at
  most all of its parameters unless one of them is a rest parameter. A call with any other
  number of arguments is rejected whatever the arguments are.
\<close>

definition min_args :: "signature \<Rightarrow> nat" where
  "min_args s = length (filter (\<lambda>p. param_kind_of p = PRequired) (sig_params s))"

definition has_rest :: "signature \<Rightarrow> bool" where
  "has_rest s = list_ex (\<lambda>p. param_kind_of p = PRest) (sig_params s)"

definition accepts_argc :: "nat \<Rightarrow> signature \<Rightarrow> bool" where
  "accepts_argc n s = (min_args s \<le> n \<and> (has_rest s \<or> n \<le> length (sig_params s)))"

text \<open>
  Instantiating a generic signature: its type parameters, in order, are replaced by the
  type arguments wherever their names are used as types. No type of the file binds a type
  parameter of its own inside a signature, so the replacement cannot capture.
\<close>

primrec subst_type :: "(string \<times> ts_type) list \<Rightarrow> ts_type \<Rightarrow> ts_type"
  and subst_param :: "(string \<times> ts_type) list \<Rightarrow> param \<Rightarrow> param"
  and subst_member :: "(string \<times> ts_type) list \<Rightarrow> member \<Rightarrow> member" where
  "subst_type \<sigma> TString = TString"
| "subst_type \<sigma> TNumber = TNumber"
| "subst_type \<sigma> TBoolean = TBoolean"
| "subst_type \<sigma> TVoid = TVoid"
| "subst_type \<sigma> TUndefined = TUndefined"
| "subst_type \<sigma> TAny = TAny"
| "subst_type \<sigma> (TLitString s) = TLitString s"
| "subst_type \<sigma> (TLitBool b) = TLitBool b"
| "subst_type \<sigma> (TRef n args) =
     (if args = [] then (case map_of \<sigma> n of Some t \<Rightarrow> t | None \<Rightarrow> TRef n [])
      else TRef n (map (subst_type \<sigma>) args))"
| "subst_type \<sigma> (TArray t) = TArray (subst_type \<sigma> t)"
| "subst_type \<sigma> (TUnion ts) = TUnion (map (subst_type \<sigma>) ts)"
| "subst_type \<sigma> (TObject ms) = TObject (map (subst_member \<sigma>) ms)"
| "subst_type \<sigma> (TFun ps r) = TFun (map (subst_param \<sigma>) ps) (subst_type \<sigma> r)"
| "subst_param \<sigma> (Param n k t) = Param n k (subst_type \<sigma> t)"
| "subst_member \<sigma> (MProp n opt t) = MProp n opt (subst_type \<sigma> t)"
| "subst_member \<sigma> (MIndex k kt vt) = MIndex k (subst_type \<sigma> kt) (subst_type \<sigma> vt)"
| "subst_member \<sigma> (MMethod n ps r) = MMethod n (map (subst_param \<sigma>) ps) (subst_type \<sigma> r)"
| "subst_member \<sigma> (MCall ps r) = MCall (map (subst_param \<sigma>) ps) (subst_type \<sigma> r)"

fun tparam_name :: "tparam \<Rightarrow> string" where
  "tparam_name (TParam n c) = n"

fun tparam_constraint :: "tparam \<Rightarrow> ts_type option" where
  "tparam_constraint (TParam n c) = c"

text \<open>
  A type argument must satisfy the \<open>extends\<close> constraint of its type parameter. The only
  constraint written in the file is \<open>(...args: any[]) => any\<close>, the type every function
  is assignable to, on \<open>startSegment\<close>, \<open>createTracer\<close> and \<open>setLambdaHandler\<close>. The
  types that can be called are: a function type; an object type with a call signature; a
  reference to an interface of the file that has one (\<open>Instrument\<close>); a union of such
  types. The other names the file uses as types (\<open>Error\<close>, \<open>RegExp\<close>, \<open>Promise\<close>,
  \<open>Record\<close> and the interfaces without call signature) cannot be called. \<open>any\<close>
  satisfies every constraint. Against a constraint of another form, which the file does
  not have, only the constraint itself and \<open>any\<close> are admitted.
\<close>

fun is_function_type :: "ts_type \<Rightarrow> bool" where
  "is_function_type (TFun ps r) = True"
| "is_function_type TString = False"
| "is_function_type TNumber = False"
| "is_function_type TBoolean = False"
| "is_function_type TVoid = False"
| "is_function_type TUndefined = False"
| "is_function_type TAny = False"
| "is_function_type (TLitString s) = False"
| "is_function_type (TLitBool b) = False"
| "is_function_type (TRef n args) = False"
| "is_function_type (TArray t) = False"
| "is_function_type (TUnion ts) = False"
| "is_function_type (TObject ms) = False"

fun callable :: "decl list \<Rightarrow> ts_type \<Rightarrow> bool" where
  "callable ds (TFun ps r) = True"
| "callable ds (TObject ms) = (concat (map member_call ms) \<noteq> [])"
| "callable ds (TRef n args) = (args = [] \<and> call_signatures ds n \<noteq> [])"
| "callable ds (TUnion ts) = (ts \<noteq> [] \<and> list_all (callable ds) ts)"
| "callable ds TString = False"
| "callable ds TNumber = False"
| "callable ds TBoolean = False"
| "callable ds TVoid = False"
| "callable ds TUndefined = False"
| "callable ds TAny = False"
| "callable ds (TLitString s) = False"
| "callable ds (TLitBool b) = False"
| "callable ds (TArray t) = False"

definition any_function :: ts_type where
  "any_function = TFun [Param ''args'' PRest (TArray TAny)] TAny"

fun satisfies :: "decl list \<Rightarrow> ts_type \<Rightarrow> ts_type option \<Rightarrow> bool" where
  "satisfies ds t None = True"
| "satisfies ds t (Some c) =
     (t = TAny \<or> t = c \<or> (c = any_function \<and> callable ds t))"

definition instantiate :: "signature \<Rightarrow> ts_type list \<Rightarrow> signature option" where
  "instantiate s targs =
     (if length targs = length (sig_tparams s)
         \<and> list_all (\<lambda>(tp, t). satisfies index_d_ts t (tparam_constraint tp))
              (zip (sig_tparams s) targs)
      then Some \<lparr>sig_tparams = [],
                 sig_params = map (subst_param (zip (map tparam_name (sig_tparams s)) targs))
                                  (sig_params s),
                 sig_ret = subst_type (zip (map tparam_name (sig_tparams s)) targs) (sig_ret s)\<rparr>
      else None)"

section \<open>Families of functions by name\<close>

fun decl_return :: "decl \<Rightarrow> (string \<times> ts_type) list" where
  "decl_return (DFunction n tps ps r) = [(n, r)]"
| "decl_return (DConst n t) = []"
| "decl_return (DInterface n ms) = []"
| "decl_return (DTypeAlias n t) = []"

definition function_returns :: "decl list \<Rightarrow> (string \<times> ts_type) list" where
  "function_returns ds = concat (map decl_return ds)"

definition starts_with :: "string \<Rightarrow> string \<Rightarrow> bool" where
  "starts_with p n = (take (length p) n = p)"

definition ends_with :: "string \<Rightarrow> string \<Rightarrow> bool" where
  "ends_with s n = (length s \<le> length n \<and> drop (length n - length s) n = s)"

fun decl_const :: "decl \<Rightarrow> (string \<times> ts_type) list" where
  "decl_const (DConst n t) = [(n, t)]"
| "decl_const (DFunction n tps ps r) = []"
| "decl_const (DInterface n ms) = []"
| "decl_const (DTypeAlias n t) = []"

definition constants :: "decl list \<Rightarrow> (string \<times> ts_type) list" where
  "constants ds = concat (map decl_const ds)"

section \<open>The headers map at run time\<close>

text \<open>
  The values of a \<open>DistributedTraceHeaders\<close> map, after the alias:
  \<open>number | string | string[] | undefined\<close>. The representation of numbers is left
  open. A headers map assigns values to some header names; the caller holds it by
  reference, and the store gives the map behind every reference.
\<close>

datatype 'n header_value = HNumber 'n | HString string | HStrings "string list" | HUndefined

type_synonym 'n headers = "string \<rightharpoonup> 'n header_value"

type_synonym 'n store = "nat \<Rightarrow> 'n headers"

text \<open>
  Modelled from the spec: the body of \<open>TransactionHandle#insertDistributedTraceHeaders\<close>,
  which belongs to the agent at run time and is not among the declarations; only its
  signature is. The data model of the specification says that the map is mutated in
  place by \<open>insertDistributedTraceHeaders\<close>, and the comment on the declaration that the
  method modifies the headers map that is passed in by adding W3C Trace Context headers
  and New Relic Distributed Trace headers. Neither fixes the names or values of the added
  headers, so they are the parameter \<open>added\<close>. The call writes them into the map behind
  the reference \<open>r\<close> it was given and returns nothing.
\<close>

definition insertDistributedTraceHeaders ::
    "(string \<times> 'n header_value) list \<Rightarrow> nat \<Rightarrow> 'n store \<Rightarrow> unit \<times> 'n store" where
  "insertDistributedTraceHeaders added r h = ((), h(r := h r ++ map_of added))"

section \<open>Shapes of interfaces\<close>

text \<open>
  C1. The interface \<open>TransactionHandle\<close> declares exactly the five members \<open>end\<close>,
  \<open>ignore\<close>, \<open>insertDistributedTraceHeaders\<close>, \<open>acceptDistributedTraceHeaders\<close> and
  \<open>isSampled\<close>, every one of them a method, and \<open>getTransaction\<close> has a single
  signature, without parameters, whose return type is \<open>TransactionHandle\<close>.
\<close>

theorem TransactionHandle_capabilities:
  "concat (map member_names (interface_members index_d_ts ''TransactionHandle'')) =
     [''end'', ''ignore'', ''insertDistributedTraceHeaders'',
      ''acceptDistributedTraceHeaders'', ''isSampled'']
   \<and> length (interface_members index_d_ts ''TransactionHandle'') = 5
   \<and> list_all is_method (interface_members index_d_ts ''TransactionHandle'')
   \<and> overloads index_d_ts ''getTransaction'' =
       [\<lparr>sig_tparams = [], sig_params = [], sig_ret = TRef ''TransactionHandle'' []\<rparr>]"
  by (simp add: index_d_ts_def interface_members_def overloads_def)

text \<open>
  C4. The interface \<open>Metric\<close> consists of exactly the five required properties
  \<open>count\<close>, \<open>total\<close>, \<open>min\<close>, \<open>max\<close> and \<open>sumOfSquares\<close>, each of type
  \<open>number\<close>, and \<open>recordMetric\<close> has a single signature whose \<open>value\<close> parameter has
  the type \<open>number | Metric\<close>.
\<close>

theorem Metric_record_and_recordMetric_value:
  "interface_members index_d_ts ''Metric'' =
     [MProp ''count'' False TNumber, MProp ''total'' False TNumber,
      MProp ''min'' False TNumber, MProp ''max'' False TNumber,
      MProp ''sumOfSquares'' False TNumber]
   \<and> map sig_params (overloads index_d_ts ''recordMetric'') =
       [[Param ''name'' PRequired TString,
         Param ''value'' PRequired (TUnion [TNumber, TRef ''Metric'' []])]]"
  by (simp add: index_d_ts_def interface_members_def overloads_def)

text \<open>
  C5. \<open>DistributedTraceHeaders\<close> is the alias of \<open>Record<string, number | string |
  string[] | undefined>\<close>, a map from header names to header values, and the method
  \<open>insertDistributedTraceHeaders\<close> of \<open>TransactionHandle\<close> has a single signature: it
  takes one required parameter of that map type and its return type is \<open>void\<close>. At run
  time the call returns nothing and its whole effect is on the map behind the reference it
  was passed: afterwards that map is the old one overridden by the added headers, so every
  added header can be read through the caller's reference and every other header of the
  map is as before, and the map behind any other reference is unchanged.
\<close>

theorem insertDistributedTraceHeaders_mutates_in_place:
  "type_aliases index_d_ts ''DistributedTraceHeaders'' =
     [TRef ''Record'' [TString, TUnion [TNumber, TString, TArray TString, TUndefined]]]
   \<and> methods_of index_d_ts ''TransactionHandle'' ''insertDistributedTraceHeaders'' =
       [\<lparr>sig_tparams = [],
         sig_params = [Param ''headers'' PRequired (TRef ''DistributedTraceHeaders'' [])],
         sig_ret = TVoid\<rparr>]
   \<and> fst (insertDistributedTraceHeaders added r h) = ()
   \<and> snd (insertDistributedTraceHeaders added r h) r = h r ++ map_of added
   \<and> (map_of added k = Some v \<longrightarrow>
        snd (insertDistributedTraceHeaders added r h) r k = Some v)
   \<and> (map_of added k = None \<longrightarrow>
        snd (insertDistributedTraceHeaders added r h) r k = h r k)
   \<and> (r' \<noteq> r \<longrightarrow> snd (insertDistributedTraceHeaders added r h) r' = h r')"
proof -
  have shape: "type_aliases index_d_ts ''DistributedTraceHeaders'' =
     [TRef ''Record'' [TString, TUnion [TNumber, TString, TArray TString, TUndefined]]]
   \<and> methods_of index_d_ts ''TransactionHandle'' ''insertDistributedTraceHeaders'' =
       [\<lparr>sig_tparams = [],
         sig_params = [Param ''headers'' PRequired (TRef ''DistributedTraceHeaders'' [])],
         sig_ret = TVoid\<rparr>]"
    by (simp add: index_d_ts_def interface_members_def type_aliases_def methods_of_def)
  have effect: "snd (insertDistributedTraceHeaders added r h) r = h r ++ map_of added"
    by (simp add: insertDistributedTraceHeaders_def)
  have added: "map_of added k = Some v \<longrightarrow>
      snd (insertDistributedTraceHeaders added r h) r k = Some v"
    by (simp add: effect)
  have kept: "map_of added k = None \<longrightarrow>
      snd (insertDistributedTraceHeaders added r h) r k = h r k"
    by (simp add: effect map_add_def)
  have frame: "r' \<noteq> r \<longrightarrow> snd (insertDistributedTraceHeaders added r h) r' = h r'"
    by (simp add: insertDistributedTraceHeaders_def)
  from shape effect added kept frame show ?thesis
    by simp
qed

text \<open>
  The instance of C5 at a request that already carries an \<open>accept\<close> header, behind
  reference 0, while another map is behind reference 1: the agent adds \<open>traceparent\<close> and
  \<open>newrelic\<close>.
\<close>

theorem insertDistributedTraceHeaders_mutates_in_place_witness:
  "map_of [(''traceparent'', HString ''00-0af7651916cd43dd-b7ad6b71-01''),
           (''newrelic'', HString ''eyJ2IjpbMCwxXX0='')] ''traceparent'' =
     Some (HString ''00-0af7651916cd43dd-b7ad6b71-01'')
   \<and> snd (insertDistributedTraceHeaders
        [(''traceparent'', HString ''00-0af7651916cd43dd-b7ad6b71-01''),
         (''newrelic'', HString ''eyJ2IjpbMCwxXX0='')] 0
        ((\<lambda>x. Map.empty)(0 := [''accept'' \<mapsto> HString ''text/html''],
                           1 := [''x-request-id'' \<mapsto> HNumber (7::int)])))
       0 ''traceparent'' = Some (HString ''00-0af7651916cd43dd-b7ad6b71-01'')
   \<and> map_of [(''traceparent'', HString ''00-0af7651916cd43dd-b7ad6b71-01''),
             (''newrelic'', HString ''eyJ2IjpbMCwxXX0='')] ''accept'' = None
   \<and> snd (insertDistributedTraceHeaders
        [(''traceparent'', HString ''00-0af7651916cd43dd-b7ad6b71-01''),
         (''newrelic'', HString ''eyJ2IjpbMCwxXX0='')] 0
        ((\<lambda>x. Map.empty)(0 := [''accept'' \<mapsto> HString ''text/html''],
                           1 := [''x-request-id'' \<mapsto> HNumber (7::int)])))
       0 ''accept'' = Some (HString ''text/html'')
   \<and> (1::nat) \<noteq> 0
   \<and> snd (insertDistributedTraceHeaders
        [(''traceparent'', HString ''00-0af7651916cd43dd-b7ad6b71-01''),
         (''newrelic'', HString ''eyJ2IjpbMCwxXX0='')] 0
        ((\<lambda>x. Map.empty)(0 := [''accept'' \<mapsto> HString ''text/html''],
                           1 := [''x-request-id'' \<mapsto> HNumber (7::int)])))
       1 = [''x-request-id'' \<mapsto> HNumber 7]"
  using insertDistributedTraceHeaders_mutates_in_place
    [where added = "[(''traceparent'', HString ''00-0af7651916cd43dd-b7ad6b71-01''),
                     (''newrelic'', HString ''eyJ2IjpbMCwxXX0='')]"
       and r = 0
       and h = "(\<lambda>x. Map.empty)(0 := [''accept'' \<mapsto> HString ''text/html''],
                                 1 := [''x-request-id'' \<mapsto> HNumber (7::int)])"
       and k = "''traceparent''"
       and v = "HString ''00-0af7651916cd43dd-b7ad6b71-01''"
       and r' = 1]
    insertDistributedTraceHeaders_mutates_in_place
    [where added = "[(''traceparent'', HString ''00-0af7651916cd43dd-b7ad6b71-01''),
                     (''newrelic'', HString ''eyJ2IjpbMCwxXX0='')]"
       and r = 0
       and h = "(\<lambda>x. Map.empty)(0 := [''accept'' \<mapsto> HString ''text/html''],
                                 1 := [''x-request-id'' \<mapsto> HNumber (7::int)])"
       and k = "''accept''"
       and v = "HString ''text/html''"
       and r' = 1]
  by simp

section \<open>Overloads\<close>

text \<open>
  C8. \<open>noticeError\<close> has exactly two overloads, \<open>(error, expected?)\<close> and
  \<open>(error, customAttributes?, expected?)\<close>: the second argument is either the optional
  boolean \<open>expected\<close> or an optional map from string keys to \<open>string | number | boolean\<close>
  followed by the optional boolean \<open>expected\<close>; both overloads return \<open>void\<close>.
\<close>

theorem noticeError_overloads:
  "overloads index_d_ts ''noticeError'' =
     [\<lparr>sig_tparams = [],
       sig_params = [Param ''error'' PRequired (TRef ''Error'' []),
                     Param ''expected'' POptional TBoolean],
       sig_ret = TVoid\<rparr>,
      \<lparr>sig_tparams = [],
       sig_params = [Param ''error'' PRequired (TRef ''Error'' []),
                     Param ''customAttributes'' POptional
                       (TObject [MIndex ''key'' TString (TUnion [TString, TNumber, TBoolean])]),
                     Param ''expected'' POptional TBoolean],
       sig_ret = TVoid\<rparr>]"
  by (simp add: index_d_ts_def overloads_def)

text \<open>
  C2, as the declarations have it. \<open>getTransaction\<close> returns a \<open>TransactionHandle\<close>, but
  \<open>endTransaction\<close> has a single signature with no parameter at all, returning \<open>void\<close>:
  it takes no handle. The handle is ended through its own method \<open>end(callback?)\<close>.
\<close>

theorem endTransaction_takes_nothing:
  "overloads index_d_ts ''endTransaction'' =
     [\<lparr>sig_tparams = [], sig_params = [], sig_ret = TVoid\<rparr>]
   \<and> map sig_ret (overloads index_d_ts ''getTransaction'') = [TRef ''TransactionHandle'' []]
   \<and> methods_of index_d_ts ''TransactionHandle'' ''end'' =
       [\<lparr>sig_tparams = [],
         sig_params = [Param ''callback'' POptional (TFun [] TAny)],
         sig_ret = TVoid\<rparr>]"
  by (simp add: index_d_ts_def interface_members_def overloads_def methods_of_def)

text \<open>
  C2, as the claim is written, fails: no signature of \<open>endTransaction\<close> admits a call with
  one argument, so a \<open>TransactionHandle\<close> cannot be passed to it.
\<close>

theorem endTransaction_rejects_one_argument:
  "\<not> list_ex (accepts_argc 1) (overloads index_d_ts ''endTransaction'')"
  by (simp add: index_d_ts_def overloads_def accepts_argc_def min_args_def has_rest_def)

text \<open>
  C3, as the declarations have it. \<open>startBackgroundTransaction\<close> has four overloads: the
  two \<open>(name, handle)\<close> forms, for a promise and for a function, and the same two forms
  with a required \<open>group: string\<close> between \<open>name\<close> and \<open>handle\<close>.
  \<open>startWebTransaction\<close> has the two \<open>(url, handle)\<close> forms only.
\<close>

theorem start_transaction_overloads:
  "overloads index_d_ts ''startBackgroundTransaction'' =
     [\<lparr>sig_tparams = [TParam ''T'' None],
       sig_params = [Param ''name'' PRequired TString,
                     Param ''handle'' PRequired (TRef ''Promise'' [TRef ''T'' []])],
       sig_ret = TRef ''Promise'' [TRef ''T'' []]\<rparr>,
      \<lparr>sig_tparams = [TParam ''T'' None],
       sig_params = [Param ''name'' PRequired TString,
                     Param ''handle'' PRequired
                       (TFun [Param ''args'' PRest (TArray TAny)] (TRef ''T'' []))],
       sig_ret = TRef ''T'' []\<rparr>,
      \<lparr>sig_tparams = [TParam ''T'' None],
       sig_params = [Param ''name'' PRequired TString,
                     Param ''group'' PRequired TString,
                     Param ''handle'' PRequired (TRef ''Promise'' [TRef ''T'' []])],
       sig_ret = TRef ''Promise'' [TRef ''T'' []]\<rparr>,
      \<lparr>sig_tparams = [TParam ''T'' None],
       sig_params = [Param ''name'' PRequired TString,
                     Param ''group'' PRequired TString,
                     Param ''handle'' PRequired
                       (TFun [Param ''args'' PRest (TArray TAny)] (TRef ''T'' []))],
       sig_ret = TRef ''T'' []\<rparr>]
   \<and> overloads index_d_ts ''startWebTransaction'' =
     [\<lparr>sig_tparams = [TParam ''T'' None],
       sig_params = [Param ''url'' PRequired TString,
                     Param ''handle'' PRequired (TRef ''Promise'' [TRef ''T'' []])],
       sig_ret = TRef ''Promise'' [TRef ''T'' []]\<rparr>,
      \<lparr>sig_tparams = [TParam ''T'' None],
       sig_params = [Param ''url'' PRequired TString,
                     Param ''handle'' PRequired
                       (TFun [Param ''args'' PRest (TArray TAny)] (TRef ''T'' []))],
       sig_ret = TRef ''T'' []\<rparr>]"
  by (simp add: index_d_ts_def overloads_def)

text \<open>
  C3, as the claim is written, fails for \<open>startWebTransaction\<close>: none of its overloads
  admits the three arguments \<open>(name, group, handler)\<close>.
\<close>

theorem startWebTransaction_rejects_group:
  "\<not> list_ex (accepts_argc 3) (overloads index_d_ts ''startWebTransaction'')"
  by (simp add: index_d_ts_def overloads_def accepts_argc_def min_args_def has_rest_def)

section \<open>Generic signatures\<close>

text \<open>
  C6. \<open>setLambdaHandler\<close> has a single signature, generic in one type parameter \<open>T\<close>
  constrained to the function types (\<open>T extends (...args: any[]) => any\<close>); instantiated
  at any function type \<open>t\<close>, it takes a handler of type \<open>t\<close> and returns the same type
  \<open>t\<close>.
\<close>

theorem setLambdaHandler_preserves_signature:
  assumes "is_function_type t"
  shows "map sig_tparams (overloads index_d_ts ''setLambdaHandler'') =
           [[TParam ''T'' (Some (TFun [Param ''args'' PRest (TArray TAny)] TAny))]]
         \<and> map (\<lambda>s. instantiate s [t]) (overloads index_d_ts ''setLambdaHandler'') =
             [Some \<lparr>sig_tparams = [],
                    sig_params = [Param ''handler'' PRequired t],
                    sig_ret = t\<rparr>]"
proof -
  from assms obtain ps r where t: "t = TFun ps r"
    by (cases t) simp_all
  have sigs: "overloads index_d_ts ''setLambdaHandler'' =
      [\<lparr>sig_tparams = [TParam ''T'' (Some any_function)],
        sig_params = [Param ''handler'' PRequired (TRef ''T'' [])],
        sig_ret = TRef ''T'' []\<rparr>]"
    by (simp add: index_d_ts_def overloads_def any_function_def)
  show ?thesis
    unfolding sigs by (simp add: instantiate_def t any_function_def)
qed

text \<open>
  The instance of C6 at the type of an asynchronous handler,
  \<open>(event: any, context: any) => Promise<any>\<close>.
\<close>

theorem setLambdaHandler_preserves_signature_witness:
  "is_function_type
     (TFun [Param ''event'' PRequired TAny, Param ''context'' PRequired TAny]
        (TRef ''Promise'' [TAny]))
   \<and> map (\<lambda>s. instantiate s
        [TFun [Param ''event'' PRequired TAny, Param ''context'' PRequired TAny]
           (TRef ''Promise'' [TAny])])
       (overloads index_d_ts ''setLambdaHandler'') =
       [Some \<lparr>sig_tparams = [],
              sig_params =
                [Param ''handler'' PRequired
                   (TFun [Param ''event'' PRequired TAny, Param ''context'' PRequired TAny]
                      (TRef ''Promise'' [TAny]))],
              sig_ret =
                TFun [Param ''event'' PRequired TAny, Param ''context'' PRequired TAny]
                  (TRef ''Promise'' [TAny])\<rparr>]"
  using setLambdaHandler_preserves_signature
    [of "TFun [Param ''event'' PRequired TAny, Param ''context'' PRequired TAny]
           (TRef ''Promise'' [TAny])"]
  by simp

text \<open>
  The constraint is checked: \<open>setLambdaHandler\<close> cannot be instantiated at \<open>string\<close>,
  which is not a function type.
\<close>

lemma setLambdaHandler_refuses_string:
  "map (\<lambda>s. instantiate s [TString]) (overloads index_d_ts ''setLambdaHandler'') = [None]"
  by (simp add: index_d_ts_def overloads_def instantiate_def any_function_def)

text \<open>
  C7. \<open>withLlmCustomAttributes\<close> has a single signature, generic in \<open>T\<close>; instantiated at
  any type \<open>t\<close>, its callback \<open>cb\<close> is a function returning \<open>t\<close> and the call returns
  \<open>t\<close>.
\<close>

theorem withLlmCustomAttributes_returns_cb_result:
  "map (\<lambda>s. instantiate s [t]) (overloads index_d_ts ''withLlmCustomAttributes'') =
     [Some \<lparr>sig_tparams = [],
            sig_params =
              [Param ''attrs'' PRequired
                 (TRef ''Record'' [TString, TUnion [TNumber, TString, TBoolean]]),
               Param ''cb'' PRequired (TFun [Param ''args'' PRest (TArray TAny)] t)],
            sig_ret = t\<rparr>]"
  by (simp add: index_d_ts_def overloads_def instantiate_def)

section \<open>Return types across families of functions\<close>

text \<open>
  C9. The functions whose names begin with \<open>record\<close> are \<open>recordLogEvent\<close>,
  \<open>recordMetric\<close> and \<open>recordCustomEvent\<close>. The only one of them whose return type is not
  \<open>void\<close> is \<open>recordCustomEvent\<close>, which returns \<open>undefined | false\<close>; the literal type
  \<open>false\<close> is a member of that union. The two other reporting functions,
  \<open>noticeError\<close> and \<open>incrementMetric\<close>, return \<open>void\<close> in every overload.
\<close>

theorem recordCustomEvent_only_non_void_recorder:
  "map fst (filter (\<lambda>(n, r). starts_with ''record'' n) (function_returns index_d_ts)) =
     [''recordLogEvent'', ''recordMetric'', ''recordCustomEvent'']
   \<and> filter (\<lambda>(n, r). starts_with ''record'' n \<and> r \<noteq> TVoid) (function_returns index_d_ts) =
       [(''recordCustomEvent'', TUnion [TUndefined, TLitBool False])]
   \<and> map sig_ret (overloads index_d_ts ''noticeError'') = [TVoid, TVoid]
   \<and> map sig_ret (overloads index_d_ts ''incrementMetric'') = [TVoid]"
  by (simp add: index_d_ts_def function_returns_def overloads_def starts_with_def)

text \<open>
  C10. The functions whose names end in \<open>Callback\<close> are \<open>setErrorGroupCallback\<close> and
  \<open>setLlmTokenCountCallback\<close>. \<open>setLlmTokenCountCallback\<close> has a single signature,
  generic in \<open>T\<close>: instantiated at any type \<open>t\<close>, the callback it registers returns \<open>t\<close>
  and so does the call. The only function of that family whose return type is not
  \<open>void\<close> is \<open>setLlmTokenCountCallback\<close>. The hooks registered through the four
  constants of type \<open>Instrument\<close> return \<open>void\<close> in both call signatures.
\<close>

theorem setLlmTokenCountCallback_returns_T:
  "map fst (filter (\<lambda>(n, r). ends_with ''Callback'' n) (function_returns index_d_ts)) =
     [''setErrorGroupCallback'', ''setLlmTokenCountCallback'']
   \<and> map (\<lambda>s. instantiate s [t]) (overloads index_d_ts ''setLlmTokenCountCallback'') =
       [Some \<lparr>sig_tparams = [],
              sig_params =
                [Param ''cb'' PRequired (TFun [Param ''args'' PRest (TArray TAny)] t)],
              sig_ret = t\<rparr>]
   \<and> filter (\<lambda>(n, r). ends_with ''Callback'' n \<and> r \<noteq> TVoid) (function_returns index_d_ts) =
       [(''setLlmTokenCountCallback'', TRef ''T'' [])]
   \<and> map sig_ret (overloads index_d_ts ''setErrorGroupCallback'') = [TVoid]
   \<and> constants index_d_ts =
       [(''instrument'', TRef ''Instrument'' []),
        (''instrumentDatastore'', TRef ''Instrument'' []),
        (''instrumentWebframework'', TRef ''Instrument'' []),
        (''instrumentMessages'', TRef ''Instrument'' [])]
   \<and> map sig_ret (call_signatures index_d_ts ''Instrument'') = [TVoid, TVoid]"
  by (simp add: index_d_ts_def function_returns_def overloads_def ends_with_def
      instantiate_def constants_def call_signatures_def interface_members_def)

end
